theory Spec2Isabelle
  imports Complex_Main
begin

section \<open>Equations for the electrolyte: a shallow embedding\<close>

text \<open>
  The class \<^verbatim>\<open>Electrolyte\<close> of \<^verbatim>\<open>pybamm/models/components/electrolyte.py\<close> holds three
  attributes (\<^verbatim>\<open>param\<close>, \<^verbatim>\<open>operators\<close>, \<^verbatim>\<open>mesh\<close>) and six methods that read them.
  One-dimensional numpy arrays are lists of reals (rounding of the floating-point
  arithmetic is not modelled), Python scalars are reals, a dict is a map, and every
  exception that a line of the source can raise is a value \<open>Inl err\<close>.
\<close>

subsection \<open>Exceptions\<close>

datatype error =
    AttributeError
  | KeyError
  | ValueError
  | UnboundLocalError
  | ZeroDivisionError
  | AssertionError

text \<open>Sequencing of two computations: the first exception raised ends the call.\<close>

definition bind_r :: "error + 'a \<Rightarrow> ('a \<Rightarrow> error + 'b) \<Rightarrow> error + 'b" where
  "bind_r m f = (case m of Inl err \<Rightarrow> Inl err | Inr v \<Rightarrow> f v)"

text \<open>\<^verbatim>\<open>self.a\<close> on an attribute that was never assigned raises \<^verbatim>\<open>AttributeError\<close>.\<close>

definition get_attr :: "'a option \<Rightarrow> error + 'a" where
  "get_attr a = (case a of None \<Rightarrow> Inl AttributeError | Some v \<Rightarrow> Inr v)"

text \<open>\<^verbatim>\<open>d[k]\<close> on a dict without the key \<^verbatim>\<open>k\<close> raises \<^verbatim>\<open>KeyError\<close>.\<close>

definition getitem :: "('k \<rightharpoonup> 'v) \<Rightarrow> 'k \<Rightarrow> error + 'v" where
  "getitem d k = (case d k of None \<Rightarrow> Inl KeyError | Some v \<Rightarrow> Inr v)"

text \<open>True division of Python scalars: a zero divisor raises \<^verbatim>\<open>ZeroDivisionError\<close>.\<close>

definition py_div :: "real \<Rightarrow> real \<Rightarrow> error + real" where
  "py_div a b = (if b = 0 then Inl ZeroDivisionError else Inr (a / b))"

subsection \<open>The numpy operations the source uses\<close>

type_synonym ndarray = "real list"

text \<open>Unary minus and the product of a scalar with an array work element by element.\<close>

definition np_neg :: "ndarray \<Rightarrow> ndarray" where
  "np_neg xs = map uminus xs"

definition np_scale :: "real \<Rightarrow> ndarray \<Rightarrow> ndarray" where
  "np_scale a xs = map ((*) a) xs"

text \<open>
  A binary operation on two one-dimensional arrays: equal shapes combine element by
  element, an operand of shape \<^verbatim>\<open>(1,)\<close> is broadcast along the other one, and any other
  pair of shapes raises \<^verbatim>\<open>ValueError\<close> (operands could not be broadcast together).
\<close>

definition np_binop :: "(real \<Rightarrow> real \<Rightarrow> real) \<Rightarrow> ndarray \<Rightarrow> ndarray \<Rightarrow> error + ndarray" where
  "np_binop f xs ys =
     (if length xs = length ys then Inr (map2 f xs ys)
      else if length xs = 1 then Inr (map (\<lambda>y. f (hd xs) y) ys)
      else if length ys = 1 then Inr (map (\<lambda>x. f x (hd ys)) xs)
      else Inl ValueError)"

definition np_add :: "ndarray \<Rightarrow> ndarray \<Rightarrow> error + ndarray" where
  "np_add = np_binop (+)"

definition np_sub :: "ndarray \<Rightarrow> ndarray \<Rightarrow> error + ndarray" where
  "np_sub = np_binop (-)"

definition np_concatenate :: "ndarray list \<Rightarrow> ndarray" where
  "np_concatenate xss = concat xss"

definition np_ones_like :: "ndarray \<Rightarrow> ndarray" where
  "np_ones_like xs = replicate (length xs) 1"

subsection \<open>The three contexts\<close>

text \<open>
  The parameter, operator and mesh classes live in other modules; the electrolyte reads
  the attributes below and nothing else. The gradient and the divergence are calls into
  the operator module on arrays of any shape, so they may raise; the scalar correlations
  \<^verbatim>\<open>U_Pb\<close>, \<^verbatim>\<open>U_PbO2\<close> and \<^verbatim>\<open>icell\<close> are functions of one number.
\<close>

record parameters =
  c0 :: real
  s :: real
  gamma_dl_n :: real
  gamma_dl_p :: real
  icell :: "real \<Rightarrow> real"
  U_Pb :: "real \<Rightarrow> real"
  U_PbO2 :: "real \<Rightarrow> real"

record operator =
  grad :: "ndarray \<Rightarrow> error + ndarray"
  div_op :: "ndarray \<Rightarrow> error + ndarray"

record mesh_arrays =
  xc :: ndarray
  xcn :: ndarray
  xcp :: ndarray

text \<open>
  The object itself: the class has no constructor, so each attribute is absent until
  \<^verbatim>\<open>set_simulation\<close> assigns it.
\<close>

record electrolyte =
  param :: "parameters option"
  operators :: "(string \<rightharpoonup> operator) option"
  mesh :: "mesh_arrays option"

definition new_electrolyte :: electrolyte where
  "new_electrolyte = \<lparr>param = None, operators = None, mesh = None\<rparr>"

subsection \<open>The methods\<close>

definition set_simulation ::
  "electrolyte \<Rightarrow> parameters \<Rightarrow> (string \<rightharpoonup> operator) \<Rightarrow> mesh_arrays \<Rightarrow> electrolyte" where
  "set_simulation self p ops m = self\<lparr>param := Some p, operators := Some ops, mesh := Some m\<rparr>"

definition initial_conditions :: "electrolyte \<Rightarrow> error + (string \<rightharpoonup> ndarray)" where
  "initial_conditions self =
     bind_r (get_attr (param self)) (\<lambda>p.
     bind_r (get_attr (mesh self)) (\<lambda>m.
       let c0_field = np_scale (c0 p) (np_ones_like (xc m));
           en0 = np_scale (U_Pb p (c0 p)) (np_ones_like (xcn m));
           ep0 = np_scale (U_PbO2 p (c0 p)) (np_ones_like (xcp m))
       in Inr [''c'' \<mapsto> c0_field, ''en'' \<mapsto> en0, ''ep'' \<mapsto> ep0]))"

definition cation_conservation ::
  "electrolyte \<Rightarrow> ndarray \<Rightarrow> ndarray \<Rightarrow> ndarray \<times> ndarray \<Rightarrow> error + ndarray" where
  "cation_conservation self c j flux_bcs =
     bind_r (get_attr (operators self)) (\<lambda>ops.
     bind_r (getitem ops ''xc'') (\<lambda>op.
     bind_r (grad op c) (\<lambda>g.
       let N_internal = np_neg g;
           (flux_bc_left, flux_bc_right) = flux_bcs;
           N = np_concatenate [flux_bc_left, N_internal, flux_bc_right]
       in
     bind_r (get_attr (operators self)) (\<lambda>ops'.
     bind_r (getitem ops' ''xc'') (\<lambda>op'.
     bind_r (div_op op' N) (\<lambda>d.
     bind_r (get_attr (param self)) (\<lambda>p.
       np_add (np_neg d) (np_scale (s p) j))))))))"

definition bcs_cation_flux :: "electrolyte \<Rightarrow> error + ndarray \<times> ndarray" where
  "bcs_cation_flux self =
     (let flux_bc_left = [0]; flux_bc_right = [0] in Inr (flux_bc_left, flux_bc_right))"

definition macinnes ::
  "electrolyte \<Rightarrow> string \<Rightarrow> ndarray \<Rightarrow> ndarray \<Rightarrow> ndarray \<times> ndarray \<Rightarrow> error + ndarray" where
  "macinnes self domain c e current_bcs =
     bind_r (get_attr (operators self)) (\<lambda>ops.
     bind_r (getitem ops domain) (\<lambda>op.
       let kappa_over_c = 1; kappa = 1 in
     bind_r (grad op c) (\<lambda>gc.
     bind_r (grad op e) (\<lambda>ge.
     bind_r (np_add (np_scale kappa_over_c gc) (np_scale kappa ge)) (\<lambda>i_inner.
       let (lbc, rbc) = current_bcs
       in Inr (np_concatenate [lbc, i_inner, rbc]))))))"

text \<open>
  In \<^verbatim>\<open>current_conservation\<close> the name \<^verbatim>\<open>gamma_dl\<close> is bound in the two branches of an
  \<^verbatim>\<open>if\<close>/\<^verbatim>\<open>elif\<close> without \<^verbatim>\<open>else\<close>; reading it afterwards raises \<^verbatim>\<open>UnboundLocalError\<close>
  when neither branch ran.
\<close>

definition select_gamma_dl :: "electrolyte \<Rightarrow> string \<Rightarrow> error + real option" where
  "select_gamma_dl self domain =
     (if domain = ''xcn'' then bind_r (get_attr (param self)) (\<lambda>p. Inr (Some (gamma_dl_n p)))
      else if domain = ''xcp'' then bind_r (get_attr (param self)) (\<lambda>p. Inr (Some (gamma_dl_p p)))
      else Inr None)"

definition read_local :: "'a option \<Rightarrow> error + 'a" where
  "read_local v = (case v of None \<Rightarrow> Inl UnboundLocalError | Some x \<Rightarrow> Inr x)"

definition current_conservation ::
  "electrolyte \<Rightarrow> string \<Rightarrow> ndarray \<Rightarrow> ndarray \<Rightarrow> ndarray \<Rightarrow> ndarray \<times> ndarray
     \<Rightarrow> error + ndarray" where
  "current_conservation self domain c e j current_bcs =
     bind_r (macinnes self domain c e current_bcs) (\<lambda>i.
     bind_r (select_gamma_dl self domain) (\<lambda>gamma_dl_local.
     bind_r (read_local gamma_dl_local) (\<lambda>gamma_dl.
     bind_r (py_div 1 gamma_dl) (\<lambda>inv_gamma.
     bind_r (get_attr (operators self)) (\<lambda>ops.
     bind_r (getitem ops domain) (\<lambda>op.
     bind_r (div_op op i) (\<lambda>d.
     bind_r (np_sub d j) (\<lambda>r.
       Inr (np_scale inv_gamma r)))))))))"

text \<open>
  \<^verbatim>\<open>bcs_current\<close> binds its two locals in the same kind of \<^verbatim>\<open>if\<close>/\<^verbatim>\<open>elif\<close>; the
  \<^verbatim>\<open>return\<close> reads \<^verbatim>\<open>current_bc_left\<close> first.
\<close>

definition bcs_current :: "electrolyte \<Rightarrow> string \<Rightarrow> real \<Rightarrow> error + ndarray \<times> ndarray" where
  "bcs_current self domain t =
     bind_r
       (if domain = ''xcn'' then
          bind_r (get_attr (param self)) (\<lambda>p. Inr (Some [0], Some [icell p t]))
        else if domain = ''xcp'' then
          bind_r (get_attr (param self)) (\<lambda>p. Inr (Some [icell p t], Some [0]))
        else Inr (None, None))
       (\<lambda>(current_bc_left, current_bc_right).
          bind_r (read_local current_bc_left) (\<lambda>l.
          bind_r (read_local current_bc_right) (\<lambda>r. Inr (l, r))))"

subsection \<open>Calling the methods on the object\<close>

text \<open>
  A method call receives the object and may assign its attributes: it yields what the
  method returns (or the exception it raises) and the object after the call. Only
  \<^verbatim>\<open>set_simulation\<close> contains assignments to \<^verbatim>\<open>self\<close>.
\<close>

datatype call =
    is_set_simulation: Set_simulation parameters "string \<rightharpoonup> operator" mesh_arrays
  | Initial_conditions
  | Cation_conservation ndarray ndarray "ndarray \<times> ndarray"
  | Bcs_cation_flux
  | Current_conservation string ndarray ndarray ndarray "ndarray \<times> ndarray"
  | Macinnes string ndarray ndarray "ndarray \<times> ndarray"
  | Bcs_current string real

datatype retval =
    Ret_none
  | Ret_dict "string \<rightharpoonup> ndarray"
  | Ret_array ndarray
  | Ret_pair "ndarray \<times> ndarray"

fun call_method :: "electrolyte \<Rightarrow> call \<Rightarrow> (error + retval) \<times> electrolyte" where
  "call_method self (Set_simulation p ops m) = (Inr Ret_none, set_simulation self p ops m)"
| "call_method self Initial_conditions =
     (map_sum id Ret_dict (initial_conditions self), self)"
| "call_method self (Cation_conservation c j flux_bcs) =
     (map_sum id Ret_array (cation_conservation self c j flux_bcs), self)"
| "call_method self Bcs_cation_flux =
     (map_sum id Ret_pair (bcs_cation_flux self), self)"
| "call_method self (Current_conservation domain c e j current_bcs) =
     (map_sum id Ret_array (current_conservation self domain c e j current_bcs), self)"
| "call_method self (Macinnes domain c e current_bcs) =
     (map_sum id Ret_array (macinnes self domain c e current_bcs), self)"
| "call_method self (Bcs_current domain t) =
     (map_sum id Ret_pair (bcs_current self domain t), self)"

text \<open>A sequence of calls on one object, whatever each of them returns or raises.\<close>

fun call_methods :: "electrolyte \<Rightarrow> call list \<Rightarrow> electrolyte" where
  "call_methods self [] = self"
| "call_methods self (x # xs) = call_methods (snd (call_method self x)) xs"

subsection \<open>A concrete simulation\<close>

text \<open>
  Modelled from the spec: the operator library, the parameter set and the mesh are
  external collaborators whose code is not part of the electrolyte module. The
  definitions below are one concrete choice of them, used to evaluate the methods at
  explicit inputs: a mesh with three electrolyte cells and two cells in each electrode,
  \<open>c0 = 1\<close>, \<open>s = 1/2\<close>, \<open>icell(t) = 5\<close>, and for each domain of \<open>n\<close> cells a
  unit-spacing difference operator pair that maps a flat field to a zero gradient,
  checks the shape of its argument, and has the shapes of the docstrings of the source:
  the gradient takes \<open>n\<close> cell values to the \<open>n - 1\<close> interior faces, the divergence takes
  \<open>n + 1\<close> face values to \<open>n\<close> cell values.
\<close>

fun np_diff :: "ndarray \<Rightarrow> ndarray" where
  "np_diff (x # y # zs) = (y - x) # np_diff (y # zs)"
| "np_diff zs = []"

definition example_operator :: "nat \<Rightarrow> operator" where
  "example_operator n =
     \<lparr>grad = (\<lambda>y. if length y = n then Inr (np_diff y) else Inl AssertionError),
      div_op = (\<lambda>N. if length N = n + 1 then Inr (np_diff N) else Inl AssertionError)\<rparr>"

definition example_operators :: "string \<rightharpoonup> operator" where
  "example_operators =
     [''xc'' \<mapsto> example_operator 3, ''xcn'' \<mapsto> example_operator 2, ''xcp'' \<mapsto> example_operator 2]"

definition example_param :: parameters where
  "example_param =
     \<lparr>c0 = 1, s = 1 / 2, gamma_dl_n = 2, gamma_dl_p = 4,
      icell = (\<lambda>t. 5), U_Pb = (\<lambda>c. c - 2), U_PbO2 = (\<lambda>c. c + 2)\<rparr>"

definition example_mesh :: mesh_arrays where
  "example_mesh = \<lparr>xc = [1 / 6, 1 / 2, 5 / 6], xcn = [1 / 12, 1 / 4], xcp = [3 / 4, 11 / 12]\<rparr>"

definition example_electrolyte :: electrolyte where
  "example_electrolyte = set_simulation new_electrolyte example_param example_operators example_mesh"

section \<open>Properties\<close>

subsection \<open>Evaluation rules\<close>

lemma bind_r_Inl [simp]: "bind_r (Inl err) f = Inl err"
  by (simp add: bind_r_def)

lemma bind_r_Inr [simp]: "bind_r (Inr v) f = f v"
  by (simp add: bind_r_def)

lemma get_attr_None [simp]: "get_attr None = Inl AttributeError"
  by (simp add: get_attr_def)

lemma get_attr_Some [simp]: "get_attr (Some v) = Inr v"
  by (simp add: get_attr_def)

lemma getitem_Some: "d k = Some v \<Longrightarrow> getitem d k = Inr v"
  by (simp add: getitem_def)

lemma getitem_None: "d k = None \<Longrightarrow> getitem d k = Inl KeyError"
  by (simp add: getitem_def)

lemma read_local_simps [simp]:
  "read_local None = Inl UnboundLocalError" "read_local (Some x) = Inr x"
  by (simp_all add: read_local_def)

lemma np_binop_same_length:
  "length xs = length ys \<Longrightarrow> np_binop f xs ys = Inr (map2 f xs ys)"
  by (simp add: np_binop_def)

lemma np_binop_ValueError_iff:
  "np_binop f xs ys = Inl err \<longleftrightarrow>
     err = ValueError \<and> length xs \<noteq> length ys \<and> length xs \<noteq> 1 \<and> length ys \<noteq> 1"
  by (auto simp: np_binop_def)

lemma example_electrolyte_simps [simp]:
  "param example_electrolyte = Some example_param"
  "operators example_electrolyte = Some example_operators"
  "mesh example_electrolyte = Some example_mesh"
  by (simp_all add: example_electrolyte_def set_simulation_def new_electrolyte_def)

lemma example_operators_simps [simp]:
  "example_operators ''xc'' = Some (example_operator 3)"
  "example_operators ''xcn'' = Some (example_operator 2)"
  "example_operators ''xcp'' = Some (example_operator 2)"
  by (simp_all add: example_operators_def)

lemma map2_add_commute:
  fixes xs ys :: ndarray
  shows "length xs = length ys \<Longrightarrow> map2 (+) xs ys = map2 (+) ys xs"
  by (induction xs ys rule: list_induct2) simp_all

lemma np_add_commute: "np_add xs ys = np_add ys xs"
proof (cases "length xs = length ys")
  case True
  then show ?thesis
    by (simp add: np_add_def np_binop_def map2_add_commute)
next
  case False
  then show ?thesis
    by (auto simp: np_add_def np_binop_def add.commute)
qed

lemma macinnes_inner:
  assumes "operators self = Some ops" "ops domain = Some op"
    and "grad op c = Inr gc" "grad op e = Inr ge"
  shows "macinnes self domain c e (lbc, rbc) =
           bind_r (np_add (np_scale 1 gc) (np_scale 1 ge)) (\<lambda>i_inner. Inr (lbc @ i_inner @ rbc))"
  using assms by (simp add: macinnes_def getitem_Some np_concatenate_def)

lemma select_gamma_dl_valid:
  assumes "domain = ''xcn'' \<or> domain = ''xcp''" "param self = Some p"
  shows "select_gamma_dl self domain =
           Inr (Some (if domain = ''xcn'' then gamma_dl_n p else gamma_dl_p p))"
  using assms by (auto simp: select_gamma_dl_def)

lemma call_method_frame: "\<not> is_set_simulation x \<Longrightarrow> snd (call_method self x) = self"
  by (cases x) simp_all

lemma call_methods_frame:
  "\<forall>x \<in> set xs. \<not> is_set_simulation x \<Longrightarrow> call_methods self xs = self"
  by (induction xs arbitrary: self) (simp_all add: call_method_frame)

subsection \<open>Conservation of cations\<close>

text \<open>
  Claim C1. On a configured object whose operator for the domain \<^verbatim>\<open>xc\<close> returns the
  gradient \<open>g\<close> of \<open>c\<close> on the interior faces and the divergence \<open>d\<close> of the face array
  \<open>concat(lbc, -g, rbc)\<close> on the cells, and for fields \<open>c\<close> and \<open>j\<close> of length \<open>n\<close> and
  boundary fluxes of length one, \<^verbatim>\<open>cation_conservation\<close> returns the field of length \<open>n\<close>
  whose entries are \<open>- d + s * j\<close>, cell by cell.
\<close>

theorem cation_conservation_field:
  assumes ctx: "operators self = Some ops" "ops ''xc'' = Some op" "param self = Some p"
    and len: "length c = n" "length j = n" "length lbc = 1" "length rbc = 1"
    and g: "grad op c = Inr g" "length g + 1 = length c"
    and d: "div_op op (lbc @ map uminus g @ rbc) = Inr d"
           "length d + 1 = length (lbc @ map uminus g @ rbc)"
  shows "cation_conservation self c j (lbc, rbc) = Inr (map2 (\<lambda>dv jv. - dv + s p * jv) d j)
         \<and> length (map2 (\<lambda>dv jv. - dv + s p * jv) d j) = n"
proof -
  have ld: "length d = n"
    using len g(2) d(2) by simp
  have "np_add (np_neg d) (np_scale (s p) j) = Inr (map2 (+) (map uminus d) (map ((*) (s p)) j))"
    using ld len(2) by (simp add: np_add_def np_neg_def np_scale_def np_binop_same_length)
  also have "map2 (+) (map uminus d) (map ((*) (s p)) j) = map2 (\<lambda>dv jv. - dv + s p * jv) d j"
    by (simp add: zip_map1 zip_map2 split_def comp_def)
  finally have "np_add (np_neg d) (np_scale (s p) j) = Inr (map2 (\<lambda>dv jv. - dv + s p * jv) d j)" .
  then have "cation_conservation self c j (lbc, rbc) = Inr (map2 (\<lambda>dv jv. - dv + s p * jv) d j)"
    using ctx g(1) d(1)
    by (simp add: cation_conservation_def getitem_Some np_concatenate_def np_neg_def)
  then show ?thesis
    using ld len(2) by simp
qed

theorem cation_conservation_field_witness:
  "cation_conservation example_electrolyte [1, 2, 3] [0, 2, 4] ([0], [0]) = Inr [1, 1, 1]"
  using cation_conservation_field [of example_electrolyte example_operators "example_operator 3"
      example_param "[1, 2, 3]" 3 "[0, 2, 4]" "[0]" "[0]" "[1, 1]" "[-1, 0, 1]"]
  by (simp add: example_operator_def example_param_def)

text \<open>
  Claim C7, as stated, fails: the method compares no lengths and never reads the mesh.
  With a concentration of the mesh length 3 and a current density of length 1, the
  lengths differ, and the call returns a field: numpy broadcasts the single entry of
  \<open>s * j\<close> over the three cells.
\<close>

theorem shape_mismatch_counterexample:
  "length [1, 2, 3 :: real] \<noteq> length [1 :: real]
   \<and> length [1 :: real] \<noteq> length (xc example_mesh)
   \<and> cation_conservation example_electrolyte [1, 2, 3] [1] ([0], [0]) = Inr [3 / 2, 1 / 2, - 1 / 2]"
  by (simp add: cation_conservation_def getitem_Some example_operator_def example_param_def
      example_mesh_def np_add_def np_binop_def np_scale_def np_neg_def np_concatenate_def)

text \<open>
  Claim C7, amended. On a configured object, an exception raised by the gradient or by
  the divergence ends the call with that exception; when both return, the call raises
  numpy's shape error (\<^verbatim>\<open>ValueError\<close>) exactly when the divergence field \<open>d\<close> and \<open>j\<close>
  have different lengths and neither length is 1, and it returns a field in every other
  case.
\<close>

theorem cation_conservation_shape_error:
  assumes ctx: "operators self = Some ops" "ops ''xc'' = Some op" "param self = Some p"
  shows "(\<forall>err. grad op c = Inl err \<longrightarrow> cation_conservation self c j (lbc, rbc) = Inl err)
       \<and> (\<forall>g err. grad op c = Inr g \<longrightarrow> div_op op (lbc @ map uminus g @ rbc) = Inl err \<longrightarrow>
             cation_conservation self c j (lbc, rbc) = Inl err)
       \<and> (\<forall>g d. grad op c = Inr g \<longrightarrow> div_op op (lbc @ map uminus g @ rbc) = Inr d \<longrightarrow>
             (if length d \<noteq> length j \<and> length d \<noteq> 1 \<and> length j \<noteq> 1
              then cation_conservation self c j (lbc, rbc) = Inl ValueError
              else \<exists>r. cation_conservation self c j (lbc, rbc) = Inr r))"
proof -
  have a: "cation_conservation self c j (lbc, rbc) = Inl err" if "grad op c = Inl err" for err
    using ctx that by (simp add: cation_conservation_def getitem_Some)
  have b: "cation_conservation self c j (lbc, rbc) = Inl err"
    if "grad op c = Inr g" "div_op op (lbc @ map uminus g @ rbc) = Inl err" for g err
    using ctx that by (simp add: cation_conservation_def getitem_Some np_concatenate_def np_neg_def)
  have c: "if length d \<noteq> length j \<and> length d \<noteq> 1 \<and> length j \<noteq> 1
              then cation_conservation self c j (lbc, rbc) = Inl ValueError
              else \<exists>r. cation_conservation self c j (lbc, rbc) = Inr r"
    if "grad op c = Inr g" "div_op op (lbc @ map uminus g @ rbc) = Inr d" for g d
  proof -
    have "cation_conservation self c j (lbc, rbc) = np_add (np_neg d) (np_scale (s p) j)"
      using ctx that by (simp add: cation_conservation_def getitem_Some np_concatenate_def np_neg_def)
    then show ?thesis
      by (simp add: np_add_def np_binop_def np_neg_def np_scale_def)
  qed
  from a b c show ?thesis
    by blast
qed

theorem cation_conservation_shape_error_witness:
  "cation_conservation example_electrolyte [1, 2, 3] [0, 0] ([0], [0]) = Inl ValueError
   \<and> cation_conservation example_electrolyte [1, 2] [0, 0] ([0], [0]) = Inl AssertionError"
  using cation_conservation_shape_error [of example_electrolyte example_operators "example_operator 3"
      example_param "[1, 2, 3]" "[0, 0]" "[0]" "[0]"]
    cation_conservation_shape_error [of example_electrolyte example_operators "example_operator 3"
      example_param "[1, 2]" "[0, 0]" "[0]" "[0]"]
  by (simp add: example_operator_def)

subsection \<open>The MacInnes equation\<close>

text \<open>
  Claim C3. For a domain registered in the operator context (\<^verbatim>\<open>xcn\<close> and \<^verbatim>\<open>xcp\<close> in
  particular), fields \<open>c\<close> and \<open>e\<close> of length \<open>n\<close> whose gradients \<open>gc\<close> and \<open>ge\<close> the
  operator returns on the interior faces, and boundary currents of length one,
  \<^verbatim>\<open>macinnes\<close> returns the array \<open>concat(lbc, 1 * gc + 1 * ge, rbc)\<close> of length \<open>n + 1\<close>:
  its first entry is the left boundary value, its last entry the right boundary value,
  and interior entry \<open>k + 1\<close> is the sum of the two gradients at face \<open>k\<close>.
\<close>

theorem macinnes_field:
  assumes ctx: "operators self = Some ops" "ops domain = Some op"
    and len: "length c = n" "length e = n" "length lbc = 1" "length rbc = 1"
    and gc: "grad op c = Inr gc" "length gc + 1 = length c"
    and ge: "grad op e = Inr ge" "length ge + 1 = length e"
  shows "\<exists>i. macinnes self domain c e (lbc, rbc) = Inr i
           \<and> i = lbc @ map2 (\<lambda>x y. 1 * x + 1 * y) gc ge @ rbc
           \<and> length i = n + 1
           \<and> i ! 0 = lbc ! 0
           \<and> i ! n = rbc ! 0
           \<and> (\<forall>k < n - 1. i ! (k + 1) = gc ! k + ge ! k)"
proof -
  let ?inner = "map2 (\<lambda>x y. 1 * x + 1 * y) gc ge"
  let ?i = "lbc @ ?inner @ rbc"
  have lg: "length gc = length ge" "length gc = n - 1" "0 < n"
    using len gc(2) ge(2) by auto
  have "np_add (np_scale 1 gc) (np_scale 1 ge) = Inr (map2 (+) (map ((*) 1) gc) (map ((*) 1) ge))"
    using lg(1) by (simp add: np_add_def np_scale_def np_binop_same_length)
  also have "map2 (+) (map ((*) 1) gc) (map ((*) 1) ge) = ?inner"
    by (simp add: zip_map1 zip_map2 split_def comp_def)
  finally have val: "macinnes self domain c e (lbc, rbc) = Inr ?i"
    using macinnes_inner [OF ctx gc(1) ge(1)] by simp
  have li: "length ?inner = n - 1"
    using lg by simp
  have l: "length ?i = n + 1"
    using li len(3,4) lg(3) by simp
  obtain a where a: "lbc = [a]"
    using len(3) by (cases lbc) simp_all
  obtain b where b: "rbc = [b]"
    using len(4) by (cases rbc) simp_all
  have first: "?i ! 0 = lbc ! 0"
    using a by simp
  have "?i ! n = (([a] @ ?inner) @ [b]) ! (length ([a] @ ?inner))"
    using a b li lg(3) by simp
  also have "\<dots> = b"
    by (rule nth_append_length)
  finally have lst: "?i ! n = rbc ! 0"
    using b by simp
  have inner: "\<forall>k < n - 1. ?i ! (k + 1) = gc ! k + ge ! k"
    using a lg by (simp add: nth_append)
  from val l first lst inner show ?thesis
    by blast
qed

theorem macinnes_field_witness:
  "\<exists>i. macinnes example_electrolyte ''xcn'' [1, 2] [3, 5] ([0], [5]) = Inr i \<and> i = [0, 3, 5]"
  using macinnes_field [of example_electrolyte example_operators "''xcn''" "example_operator 2"
      "[1, 2]" 2 "[3, 5]" "[0]" "[5]" "[1]" "[2]"]
  by (simp add: example_operator_def)

text \<open>
  Claim C10. \<^verbatim>\<open>macinnes\<close> is symmetric in the concentration and the potential: when the
  operator of the domain returns both gradients, exchanging \<open>c\<close> and \<open>e\<close> gives the same
  result (the same array, or the same shape error of the sum).
\<close>

theorem macinnes_symmetric:
  assumes "operators self = Some ops" "ops domain = Some op"
    and "grad op c = Inr gc" "grad op e = Inr ge"
  shows "macinnes self domain c e bcs = macinnes self domain e c bcs"
proof -
  obtain lbc rbc where bcs: "bcs = (lbc, rbc)"
    by (cases bcs)
  have "np_add (np_scale 1 gc) (np_scale 1 ge) = np_add (np_scale 1 ge) (np_scale 1 gc)"
    by (rule np_add_commute)
  then show ?thesis
    using assms by (simp add: bcs macinnes_inner)
qed

theorem macinnes_symmetric_witness:
  "macinnes example_electrolyte ''xcp'' [1, 2] [3, 5] ([5], [0]) =
   macinnes example_electrolyte ''xcp'' [3, 5] [1, 2] ([5], [0])"
  using macinnes_symmetric [of example_electrolyte example_operators "''xcp''" "example_operator 2"
      "[1, 2]" "[1]" "[3, 5]" "[2]" "([5], [0])"]
  by (simp add: example_operator_def)

subsection \<open>Conservation of current\<close>

text \<open>
  Claim C2. For the domain \<^verbatim>\<open>xcn\<close> or \<^verbatim>\<open>xcp\<close> on a configured object, with \<open>gamma_dl\<close>
  the parameter \<^verbatim>\<open>gamma_dl_n\<close> for \<^verbatim>\<open>xcn\<close> and \<^verbatim>\<open>gamma_dl_p\<close> for \<^verbatim>\<open>xcp\<close> (a nonzero
  scalar, so that \<open>1 / gamma_dl\<close> is defined), \<open>i\<close> the array \<^verbatim>\<open>macinnes\<close> returns and \<open>d\<close>
  the divergence of \<open>i\<close>, a field as long as \<open>j\<close>: \<^verbatim>\<open>current_conservation\<close> returns the
  field \<open>(1 / gamma_dl) * (d - j)\<close>, cell by cell.
\<close>

theorem current_conservation_field:
  assumes dom: "domain = ''xcn'' \<or> domain = ''xcp''"
    and ctx: "operators self = Some ops" "ops domain = Some op" "param self = Some p"
    and gam: "gamma_dl = (if domain = ''xcn'' then gamma_dl_n p else gamma_dl_p p)" "gamma_dl \<noteq> 0"
    and i: "macinnes self domain c e bcs = Inr i"
    and d: "div_op op i = Inr d" "length d = length j"
  shows "current_conservation self domain c e j bcs =
           Inr (map2 (\<lambda>dv jv. 1 / gamma_dl * (dv - jv)) d j)"
proof -
  have "np_sub d j = Inr (map2 (-) d j)"
    using d(2) by (simp add: np_sub_def np_binop_same_length)
  moreover have "np_scale (1 / gamma_dl) (map2 (-) d j) = map2 (\<lambda>dv jv. 1 / gamma_dl * (dv - jv)) d j"
    by (simp add: np_scale_def split_def)
  moreover have "py_div 1 gamma_dl = Inr (1 / gamma_dl)"
    using gam(2) by (simp add: py_div_def)
  moreover have "select_gamma_dl self domain = Inr (Some gamma_dl)"
    using select_gamma_dl_valid [OF dom ctx(3)] gam(1) by simp
  ultimately show ?thesis
    using ctx i d(1) by (simp add: current_conservation_def getitem_Some)
qed

theorem current_conservation_field_witness:
  "current_conservation example_electrolyte ''xcn'' [1, 2] [3, 5] [1, 1] ([0], [5]) = Inr [1, 1 / 2]"
proof -
  have dom: "''xcn'' = ''xcn'' \<or> ''xcn'' = ''xcp''"
    by simp
  have gam: "(2::real) = (if ''xcn'' = ''xcn'' then gamma_dl_n example_param else gamma_dl_p example_param)"
    "(2::real) \<noteq> 0"
    by (simp_all add: example_param_def)
  have i: "macinnes example_electrolyte ''xcn'' [1, 2] [3, 5] ([0], [5]) = Inr [0, 3, 5]"
    by (simp add: macinnes_def getitem_Some example_operator_def np_add_def np_binop_def
        np_scale_def np_concatenate_def)
  have d: "div_op (example_operator 2) [0, 3, 5] = Inr [3, 2]" "length [3, 2 :: real] = length [1, 1 :: real]"
    by (simp_all add: example_operator_def)
  have "current_conservation example_electrolyte ''xcn'' [1, 2] [3, 5] [1, 1] ([0], [5]) =
          Inr (map2 (\<lambda>dv jv. 1 / 2 * (dv - jv)) [3, 2] [1, 1])"
    by (rule current_conservation_field [OF dom example_electrolyte_simps(2)
          example_operators_simps(2) example_electrolyte_simps(1) gam i d])
  then show ?thesis
    by simp
qed

subsection \<open>Domains other than the two electrodes\<close>

text \<open>
  Claim C4, as stated, fails for \<^verbatim>\<open>macinnes\<close>: the method looks the domain up in the
  operator context and checks nothing else. The domain \<^verbatim>\<open>xc\<close>, which the operator
  context holds for \<^verbatim>\<open>cation_conservation\<close>, is neither \<^verbatim>\<open>xcn\<close> nor \<^verbatim>\<open>xcp\<close>, and
  \<^verbatim>\<open>macinnes\<close> returns an array for it.
\<close>

theorem invalid_domain_counterexample:
  "''xc'' \<noteq> ''xcn'' \<and> ''xc'' \<noteq> ''xcp''
   \<and> macinnes example_electrolyte ''xc'' [1, 2, 3] [0, 0, 0] ([0], [0]) = Inr [0, 1, 1, 0]"
  by (simp add: macinnes_def getitem_Some example_operator_def np_add_def np_binop_def
      np_scale_def np_concatenate_def)

text \<open>
  Claim C4, amended. For every domain other than \<^verbatim>\<open>xcn\<close> and \<^verbatim>\<open>xcp\<close>: \<^verbatim>\<open>bcs_current\<close>
  raises (the unbound local of its \<^verbatim>\<open>return\<close>) and \<^verbatim>\<open>current_conservation\<close> raises too,
  the exception of \<^verbatim>\<open>macinnes\<close> if that call raises and the unbound \<^verbatim>\<open>gamma_dl\<close>
  otherwise, so neither returns a value; \<^verbatim>\<open>macinnes\<close> raises \<^verbatim>\<open>KeyError\<close> when the
  operator context has no entry for the domain, and for a domain that has one it
  returns \<open>concat(lbc, 1 * gc + 1 * ge, rbc)\<close> as for the two electrodes.
\<close>

theorem invalid_domain_behaviour:
  assumes dom: "domain \<noteq> ''xcn''" "domain \<noteq> ''xcp''"
  shows "bcs_current self domain t = Inl UnboundLocalError
       \<and> current_conservation self domain c e j bcs =
           (case macinnes self domain c e bcs of Inl err \<Rightarrow> Inl err | Inr i \<Rightarrow> Inl UnboundLocalError)
       \<and> (\<forall>ops. operators self = Some ops \<longrightarrow> ops domain = None \<longrightarrow>
             macinnes self domain c e bcs = Inl KeyError)
       \<and> (\<forall>ops op gc ge. operators self = Some ops \<longrightarrow> ops domain = Some op \<longrightarrow>
             grad op c = Inr gc \<longrightarrow> grad op e = Inr ge \<longrightarrow> length gc = length ge \<longrightarrow>
             macinnes self domain c e bcs = Inr (fst bcs @ map2 (\<lambda>x y. 1 * x + 1 * y) gc ge @ snd bcs))"
proof -
  have a: "bcs_current self domain t = Inl UnboundLocalError"
    using dom by (simp add: bcs_current_def)
  have "select_gamma_dl self domain = Inr None"
    using dom by (simp add: select_gamma_dl_def)
  then have b: "current_conservation self domain c e j bcs =
      (case macinnes self domain c e bcs of Inl err \<Rightarrow> Inl err | Inr i \<Rightarrow> Inl UnboundLocalError)"
    by (simp add: current_conservation_def split: sum.split)
  have c: "macinnes self domain c e bcs = Inl KeyError"
    if "operators self = Some ops" "ops domain = None" for ops
    using that by (simp add: macinnes_def getitem_None)
  have d: "macinnes self domain c e bcs = Inr (fst bcs @ map2 (\<lambda>x y. 1 * x + 1 * y) gc ge @ snd bcs)"
    if "operators self = Some ops" "ops domain = Some op" "grad op c = Inr gc" "grad op e = Inr ge"
      "length gc = length ge" for ops op gc ge
  proof -
    have "np_add (np_scale 1 gc) (np_scale 1 ge) = Inr (map2 (+) (map ((*) 1) gc) (map ((*) 1) ge))"
      using that(5) by (simp add: np_add_def np_scale_def np_binop_same_length)
    also have "map2 (+) (map ((*) 1) gc) (map ((*) 1) ge) = map2 (\<lambda>x y. 1 * x + 1 * y) gc ge"
      by (simp add: zip_map1 zip_map2 split_def comp_def)
    finally show ?thesis
      using macinnes_inner [OF that(1-4), of "fst bcs" "snd bcs"] by simp
  qed
  from a b c d show ?thesis
    by blast
qed

theorem invalid_domain_behaviour_witness:
  "bcs_current example_electrolyte ''xc'' 7 = Inl UnboundLocalError
   \<and> current_conservation example_electrolyte ''xc'' [1, 2, 3] [0, 0, 0] [0, 0, 0] ([0], [0])
       = Inl UnboundLocalError
   \<and> macinnes example_electrolyte ''sep'' [1, 2, 3] [0, 0, 0] ([0], [0]) = Inl KeyError"
proof -
  have m: "macinnes example_electrolyte ''xc'' [1, 2, 3] [0, 0, 0] ([0], [0]) = Inr [0, 1, 1, 0]"
    by (simp add: macinnes_def getitem_Some example_operator_def np_add_def np_binop_def
        np_scale_def np_concatenate_def)
  have k: "example_operators ''sep'' = None"
    by (simp add: example_operators_def)
  have "''xc'' \<noteq> ''xcn''" "''xc'' \<noteq> ''xcp''" "''sep'' \<noteq> ''xcn''" "''sep'' \<noteq> ''xcp''"
    by simp_all
  then show ?thesis
    using invalid_domain_behaviour [of "''xc''" example_electrolyte 7 "[1, 2, 3]" "[0, 0, 0]" "[0, 0, 0]" "([0], [0])"]
      invalid_domain_behaviour [of "''sep''" example_electrolyte 7 "[1, 2, 3]" "[0, 0, 0]" "[0, 0, 0]" "([0], [0])"]
      m k
    by simp
qed

subsection \<open>Boundary conditions\<close>

text \<open>
  Claim C8. \<^verbatim>\<open>bcs_cation_flux\<close> returns the pair of one-element arrays \<open>([0], [0])\<close> on
  every object, configured or not, and after any sequence of earlier calls.
\<close>

theorem bcs_cation_flux_constant:
  "bcs_cation_flux self = Inr ([0], [0])
   \<and> fst (call_method (call_methods self calls) Bcs_cation_flux) = Inr (Ret_pair ([0], [0]))"
  by (simp add: bcs_cation_flux_def)

text \<open>
  Claim C6. On a configured object and for every time \<open>t\<close>, \<^verbatim>\<open>bcs_current\<close> returns
  \<open>([0], [icell t])\<close> for the domain \<^verbatim>\<open>xcn\<close> and \<open>([icell t], [0])\<close> for the domain
  \<^verbatim>\<open>xcp\<close>; exchanging the two components of one result gives the other.
\<close>

theorem bcs_current_mirror:
  assumes "param self = Some p"
  shows "bcs_current self ''xcn'' t = Inr ([0], [icell p t])
       \<and> bcs_current self ''xcp'' t = Inr ([icell p t], [0])
       \<and> map_sum id prod.swap (bcs_current self ''xcn'' t) = bcs_current self ''xcp'' t"
  using assms by (simp add: bcs_current_def)

theorem bcs_current_mirror_witness:
  "bcs_current example_electrolyte ''xcn'' 7 = Inr ([0], [5])
     \<and> bcs_current example_electrolyte ''xcp'' 7 = Inr ([5], [0])"
  using bcs_current_mirror [of example_electrolyte example_param 7]
  by (simp add: example_param_def)

subsection \<open>Initial conditions\<close>

text \<open>
  Claim C5. \<^verbatim>\<open>initial_conditions\<close> takes the object alone; on a configured object it
  returns a dict with exactly the keys \<^verbatim>\<open>c\<close>, \<^verbatim>\<open>en\<close> and \<^verbatim>\<open>ep\<close>, where \<^verbatim>\<open>c\<close> is \<open>c0\<close>
  repeated over the length of the mesh array \<^verbatim>\<open>xc\<close>, \<^verbatim>\<open>en\<close> is \<open>U_Pb c0\<close> repeated over
  the length of \<^verbatim>\<open>xcn\<close>, and \<^verbatim>\<open>ep\<close> is \<open>U_PbO2 c0\<close> repeated over the length of \<^verbatim>\<open>xcp\<close>.
\<close>

theorem initial_conditions_uniform:
  assumes "param self = Some p" "mesh self = Some m"
  shows "\<exists>ic. initial_conditions self = Inr ic
           \<and> dom ic = {''c'', ''en'', ''ep''}
           \<and> ic ''c'' = Some (replicate (length (xc m)) (c0 p))
           \<and> ic ''en'' = Some (replicate (length (xcn m)) (U_Pb p (c0 p)))
           \<and> ic ''ep'' = Some (replicate (length (xcp m)) (U_PbO2 p (c0 p)))"
  using assms
  by (auto simp: initial_conditions_def np_scale_def np_ones_like_def Let_def)

theorem initial_conditions_uniform_witness:
  "\<exists>ic. initial_conditions example_electrolyte = Inr ic
     \<and> dom ic = {''c'', ''en'', ''ep''}
     \<and> ic ''c'' = Some [1, 1, 1] \<and> ic ''en'' = Some [-1, -1] \<and> ic ''ep'' = Some [3, 3]"
  using initial_conditions_uniform [of example_electrolyte example_param example_mesh]
  by (simp add: example_param_def example_mesh_def numeral_3_eq_3 numeral_2_eq_2)

subsection \<open>The contexts are written by \<^verbatim>\<open>set_simulation\<close> alone\<close>

text \<open>
  Claim C9. A call of any method other than \<^verbatim>\<open>set_simulation\<close> leaves the object, that
  is its three attributes and what they hold, as it was before the call, whether the
  call returns or raises; so does any sequence of such calls. \<^verbatim>\<open>set_simulation\<close>
  stores its three arguments.
\<close>

theorem evaluation_leaves_contexts:
  "(\<not> is_set_simulation x \<longrightarrow> snd (call_method self x) = self)
   \<and> ((\<forall>y \<in> set xs. \<not> is_set_simulation y) \<longrightarrow> call_methods self xs = self)
   \<and> snd (call_method self (Set_simulation p ops m))
       = \<lparr>param = Some p, operators = Some ops, mesh = Some m\<rparr>"
  by (simp add: call_method_frame call_methods_frame set_simulation_def)

theorem evaluation_leaves_contexts_witness:
  "snd (call_method example_electrolyte (Bcs_current ''xcn'' 7)) = example_electrolyte
   \<and> call_methods example_electrolyte
        [Initial_conditions, Cation_conservation [1, 2, 3] [0, 0, 0] ([0], [0]), Bcs_cation_flux,
         Current_conservation ''xcn'' [1, 2] [3, 5] [1, 1] ([0], [5]),
         Macinnes ''xcp'' [1, 2] [3, 5] ([5], [0]), Bcs_current ''xcp'' 7] = example_electrolyte"
  using evaluation_leaves_contexts [of "Bcs_current ''xcn'' 7" example_electrolyte
      "[Initial_conditions, Cation_conservation [1, 2, 3] [0, 0, 0] ([0], [0]), Bcs_cation_flux,
         Current_conservation ''xcn'' [1, 2] [3, 5] [1, 1] ([0], [5]),
         Macinnes ''xcp'' [1, 2] [3, 5] ([5], [0]), Bcs_current ''xcp'' 7]"]
  by simp

end
